theory Spec2Isabelle
  imports Main
begin

section \<open>The browser environment the components run against\<close>

text \<open>
  The components of the site are Vue single-file components. Each one keeps a few
  reactive refs and talks to the browser: the document (element lookup, geometry, the
  \<^verbatim>\<open>data-theme\<close> attribute of the root element), the window (scroll position, scroll
  requests, scroll listeners), \<^verbatim>\<open>localStorage\<close> and \<^verbatim>\<open>IntersectionObserver\<close>.
  The browser is a record that every operation receives and returns updated.

  Pixel positions are JavaScript numbers; they are modelled as integers (whole pixels),
  on which the additions and comparisons of the code are exact.
\<close>

record element =
  doc_top :: int          \<comment> \<open>distance of the element's top edge from the top of the document\<close>
  offsetHeight :: int

datatype storage_mode =
    Working       \<comment> \<open>reads and writes succeed\<close>
  | QuotaFull     \<comment> \<open>reads succeed, \<^verbatim>\<open>setItem\<close> throws QuotaExceededError\<close>
  | Disabled      \<comment> \<open>every access to \<^verbatim>\<open>localStorage\<close> throws SecurityError\<close>

datatype error = QuotaExceededError | SecurityError | ReferenceError

datatype listener = HandleScroll

record browser =
  elements :: "string \<rightharpoonup> element"      \<comment> \<open>the elements of the document, by id\<close>
  scrollY :: int
  scrollTo_calls :: "int list"            \<comment> \<open>targets of the smooth scrolls requested so far\<close>
  scroll_listeners :: "listener list"     \<comment> \<open>listeners of the window's scroll event\<close>
  data_theme :: "string option"           \<comment> \<open>attribute \<^verbatim>\<open>data-theme\<close> of the root element\<close>
  storage_mode :: storage_mode
  items :: "string \<rightharpoonup> string"           \<comment> \<open>contents of \<^verbatim>\<open>localStorage\<close>\<close>
  has_IntersectionObserver :: bool        \<comment> \<open>whether the constructor exists in this browser\<close>

text \<open>
  A call that throws leaves the mutations made before it in place, so a thrown result
  carries the state reached at the throw: \<open>Inl (e, s)\<close> is "threw \<open>e\<close> in state \<open>s\<close>",
  \<open>Inr s\<close> is "returned in state \<open>s\<close>".
\<close>

type_synonym 's result = "(error \<times> 's) + 's"

definition getElementById :: "browser \<Rightarrow> string \<Rightarrow> element option" where
  "getElementById w i = elements w i"

text \<open>\<^verbatim>\<open>getBoundingClientRect().top\<close> is relative to the viewport.\<close>

definition rect_top :: "browser \<Rightarrow> element \<Rightarrow> int" where
  "rect_top w el = doc_top el - scrollY w"

definition scrollTo :: "int \<Rightarrow> browser \<Rightarrow> browser" where
  "scrollTo target w = w\<lparr>scrollTo_calls := scrollTo_calls w @ [target]\<rparr>"

definition setAttribute_data_theme :: "string \<Rightarrow> browser \<Rightarrow> browser" where
  "setAttribute_data_theme v w = w\<lparr>data_theme := Some v\<rparr>"

definition getItem :: "string \<Rightarrow> browser \<Rightarrow> error + string option" where
  "getItem k w = (if storage_mode w = Disabled then Inl SecurityError else Inr (items w k))"

definition setItem :: "string \<Rightarrow> string \<Rightarrow> browser \<Rightarrow> error + browser" where
  "setItem k v w =
     (case storage_mode w of
        Working \<Rightarrow> Inr (w\<lparr>items := (items w)(k \<mapsto> v)\<rparr>)
      | QuotaFull \<Rightarrow> Inl QuotaExceededError
      | Disabled \<Rightarrow> Inl SecurityError)"

text \<open>
  \<^verbatim>\<open>addEventListener\<close> ignores a listener that is already registered;
  \<^verbatim>\<open>removeEventListener\<close> removes it (the \<^verbatim>\<open>passive\<close> option plays no part in the match).
\<close>

definition addEventListener_scroll :: "listener \<Rightarrow> browser \<Rightarrow> browser" where
  "addEventListener_scroll h w =
     (if h \<in> set (scroll_listeners w) then w
      else w\<lparr>scroll_listeners := scroll_listeners w @ [h]\<rparr>)"

definition removeEventListener_scroll :: "listener \<Rightarrow> browser \<Rightarrow> browser" where
  "removeEventListener_scroll h w = w\<lparr>scroll_listeners := removeAll h (scroll_listeners w)\<rparr>"

section \<open>SimpleNavigation.vue: scroll-spy and theme toggle\<close>

text \<open>Source: \<^verbatim>\<open>src/src/components/SimpleNavigation.vue\<close>.\<close>

record nav =
  activeSection :: string
  currentTheme :: string

definition nav_setup :: nav where
  "nav_setup = \<lparr>activeSection = ''hero'', currentTheme = ''light''\<rparr>"

record section_descriptor =
  section_id :: string
  section_label :: string

definition sections :: "section_descriptor list" where
  "sections =
     [\<lparr>section_id = ''hero'', section_label = ''Home''\<rparr>,
      \<lparr>section_id = ''about'', section_label = ''About''\<rparr>,
      \<lparr>section_id = ''projects'', section_label = ''Projects''\<rparr>,
      \<lparr>section_id = ''contact'', section_label = ''Contact''\<rparr>]"

definition scrollToSection :: "string \<Rightarrow> nav \<Rightarrow> browser \<Rightarrow> nav \<times> browser" where
  "scrollToSection sectionId c w =
     (case getElementById w sectionId of
        None \<Rightarrow> (c, w)
      | Some el \<Rightarrow>
          (let absoluteElementTop = rect_top w el + scrollY w;
               navHeight = 80;
               targetPosition = max 0 (absoluteElementTop - navHeight)
           in (c\<lparr>activeSection := sectionId\<rparr>, scrollTo targetPosition w)))"

text \<open>
  The loop of \<^verbatim>\<open>updateActiveSection\<close> over the section list: a missing element is
  skipped (\<^verbatim>\<open>continue\<close>), the first section whose box contains the probe position
  becomes active and ends the loop (\<^verbatim>\<open>break\<close>).
\<close>

fun scan_sections :: "int \<Rightarrow> section_descriptor list \<Rightarrow> nav \<Rightarrow> browser \<Rightarrow> nav" where
  "scan_sections scrollPosition [] c w = c"
| "scan_sections scrollPosition (s # rest) c w =
     (case getElementById w (section_id s) of
        None \<Rightarrow> scan_sections scrollPosition rest c w
      | Some el \<Rightarrow>
          (let top = rect_top w el + scrollY w
           in if scrollPosition \<ge> top \<and> scrollPosition < top + offsetHeight el
              then c\<lparr>activeSection := section_id s\<rparr>
              else scan_sections scrollPosition rest c w))"

definition updateActiveSection :: "nav \<Rightarrow> browser \<Rightarrow> nav" where
  "updateActiveSection c w = scan_sections (scrollY w + 100) sections c w"

definition handleScroll :: "nav \<Rightarrow> browser \<Rightarrow> nav" where
  "handleScroll c w = updateActiveSection c w"

text \<open>
  The browser moving the page to position \<open>y\<close> and dispatching the scroll event to the
  listeners registered on the window.
\<close>

definition dispatch_scroll :: "int \<Rightarrow> nav \<Rightarrow> browser \<Rightarrow> nav \<times> browser" where
  "dispatch_scroll y c w =
     (let w' = w\<lparr>scrollY := y\<rparr>
      in (if HandleScroll \<in> set (scroll_listeners w') then handleScroll c w' else c, w'))"

definition SimpleNavigation_toggleTheme :: "nav \<Rightarrow> browser \<Rightarrow> (nav \<times> browser) result" where
  "SimpleNavigation_toggleTheme c w =
     (let c1 = c\<lparr>currentTheme := (if currentTheme c = ''light'' then ''dark'' else ''light'')\<rparr>;
          w1 = setAttribute_data_theme (currentTheme c1) w
      in case setItem ''theme'' (currentTheme c1) w1 of
           Inl e \<Rightarrow> Inl (e, (c1, w1))
         | Inr w2 \<Rightarrow> Inr (c1, w2))"

text \<open>
  \<^verbatim>\<open>localStorage.getItem('theme') || 'light'\<close>: \<^verbatim>\<open>null\<close> and the empty string are
  falsy, every other string is kept as it is.
\<close>

definition or_default :: "string option \<Rightarrow> string \<Rightarrow> string" where
  "or_default saved d = (case saved of None \<Rightarrow> d | Some s \<Rightarrow> if s = [] then d else s)"

definition SimpleNavigation_onMounted :: "nav \<Rightarrow> browser \<Rightarrow> (nav \<times> browser) result" where
  "SimpleNavigation_onMounted c w =
     (case getItem ''theme'' w of
        Inl e \<Rightarrow> Inl (e, (c, w))
      | Inr saved \<Rightarrow>
          (let savedTheme = or_default saved ''light'';
               c1 = c\<lparr>currentTheme := savedTheme\<rparr>;
               w1 = setAttribute_data_theme savedTheme w;
               w2 = addEventListener_scroll HandleScroll w1
           in Inr (updateActiveSection c1 w2, w2)))"

definition SimpleNavigation_onUnmounted :: "nav \<Rightarrow> browser \<Rightarrow> nav \<times> browser" where
  "SimpleNavigation_onUnmounted c w = (c, removeEventListener_scroll HandleScroll w)"

section \<open>HeroSection.vue: a second theme toggle on the same page\<close>

text \<open>
  Source: \<^verbatim>\<open>src/unnamed/part_001\<close>, the hero section that the second version of App.vue
  mounts beside the navigation. It keeps a theme ref of its own and writes the same
  storage key and the same root attribute as the navigation; nothing synchronises the
  two refs. Its snow button emits \<^verbatim>\<open>toggleSnow\<close> to App.vue. The entrance flag that
  its mount hook sets after a timeout is outside the model.
\<close>

record hero =
  currentTheme_HeroSection :: string

definition hero_setup :: hero where
  "hero_setup = \<lparr>currentTheme_HeroSection = ''light''\<rparr>"

definition HeroSection_toggleTheme :: "hero \<Rightarrow> browser \<Rightarrow> (hero \<times> browser) result" where
  "HeroSection_toggleTheme h w =
     (let h1 = h\<lparr>currentTheme_HeroSection :=
                  (if currentTheme_HeroSection h = ''light'' then ''dark'' else ''light'')\<rparr>;
          w1 = setAttribute_data_theme (currentTheme_HeroSection h1) w
      in case setItem ''theme'' (currentTheme_HeroSection h1) w1 of
           Inl e \<Rightarrow> Inl (e, (h1, w1))
         | Inr w2 \<Rightarrow> Inr (h1, w2))"

definition HeroSection_onMounted :: "hero \<Rightarrow> browser \<Rightarrow> (hero \<times> browser) result" where
  "HeroSection_onMounted h w =
     (case getItem ''theme'' w of
        Inl e \<Rightarrow> Inl (e, (h, w))
      | Inr saved \<Rightarrow>
          (let savedTheme = or_default saved ''light'';
               h1 = h\<lparr>currentTheme_HeroSection := savedTheme\<rparr>;
               w1 = setAttribute_data_theme savedTheme w
           in Inr (h1, w1)))"

section \<open>NavBar.vue: theme toggle over a list of themes\<close>

text \<open>
  Source: \<^verbatim>\<open>src/unnamed/part_000\<close>, the navigation list that the first version of
  App.vue imports as \<^verbatim>\<open>./components/NavBar.vue\<close> (both versions in that file have
  the same script).
\<close>

record navbar =
  currentTheme_NavBar :: string

definition navbar_setup :: navbar where
  "navbar_setup = \<lparr>currentTheme_NavBar = ''light''\<rparr>"

definition themes :: "string list" where
  "themes = [''light'', ''dark'']"

text \<open>\<^verbatim>\<open>Array.prototype.indexOf\<close>: the first index of the value, or \<open>-1\<close>.\<close>

fun indexOf :: "string list \<Rightarrow> string \<Rightarrow> int" where
  "indexOf [] x = -1"
| "indexOf (y # ys) x =
     (if y = x then 0 else (let i = indexOf ys x in if i = -1 then -1 else i + 1))"

definition NavBar_applyTheme :: "string \<Rightarrow> browser \<Rightarrow> browser result" where
  "NavBar_applyTheme theme w =
     (let w1 = setAttribute_data_theme theme w
      in case setItem ''theme'' theme w1 of
           Inl e \<Rightarrow> Inl (e, w1)
         | Inr w2 \<Rightarrow> Inr w2)"

text \<open>
  An operation on the browser alone, run while the component is in state \<open>c\<close>.
\<close>

definition with_component :: "'c \<Rightarrow> browser result \<Rightarrow> ('c \<times> browser) result" where
  "with_component c r = (case r of Inl (e, w) \<Rightarrow> Inl (e, (c, w)) | Inr w \<Rightarrow> Inr (c, w))"

definition NavBar_toggleTheme :: "navbar \<Rightarrow> browser \<Rightarrow> (navbar \<times> browser) result" where
  "NavBar_toggleTheme c w =
     (let index = indexOf themes (currentTheme_NavBar c);
          nextIndex = (index + 1) mod int (length themes);
          c1 = c\<lparr>currentTheme_NavBar := themes ! nat nextIndex\<rparr>
      in with_component c1 (NavBar_applyTheme (currentTheme_NavBar c1) w))"

definition NavBar_onMounted :: "navbar \<Rightarrow> browser \<Rightarrow> (navbar \<times> browser) result" where
  "NavBar_onMounted c w =
     (case getItem ''theme'' w of
        Inl e \<Rightarrow> Inl (e, (c, w))
      | Inr saved0 \<Rightarrow>
          (let saved = or_default saved0 ''light'';
               c1 = c\<lparr>currentTheme_NavBar := saved\<rparr>
           in with_component c1 (NavBar_applyTheme (currentTheme_NavBar c1) w)))"

section \<open>App.vue: the snow animation preference\<close>

text \<open>Source: \<^verbatim>\<open>src/src/App.vue\<close>.\<close>

record app =
  showSnow :: bool

definition app_setup :: app where
  "app_setup = \<lparr>showSnow = True\<rparr>"

text \<open>\<^verbatim>\<open>Boolean.prototype.toString\<close>.\<close>

definition toString :: "bool \<Rightarrow> string" where
  "toString b = (if b then ''true'' else ''false'')"

definition App_applyShowSnow :: "bool \<Rightarrow> browser \<Rightarrow> browser result" where
  "App_applyShowSnow v w =
     (case setItem ''showSnow'' (toString v) w of
        Inl e \<Rightarrow> Inl (e, w)
      | Inr w1 \<Rightarrow> Inr w1)"

definition App_toggleSnow :: "app \<Rightarrow> browser \<Rightarrow> (app \<times> browser) result" where
  "App_toggleSnow a w =
     (let a1 = a\<lparr>showSnow := \<not> showSnow a\<rparr>
      in with_component a1 (App_applyShowSnow (showSnow a1) w))"

text \<open>
  The load of the snow preference: the whole mount hook of the first version of App.vue,
  and the block "Load snow preference" of the mount hook of the second one.
  In \<^verbatim>\<open>saved ? saved === 'true' : true\<close> both \<^verbatim>\<open>null\<close> and the empty string are falsy.
\<close>

definition App_onMounted :: "app \<Rightarrow> browser \<Rightarrow> (app \<times> browser) result" where
  "App_onMounted a w =
     (case getItem ''showSnow'' w of
        Inl e \<Rightarrow> Inl (e, (a, w))
      | Inr saved \<Rightarrow>
          (let a1 = a\<lparr>showSnow :=
                 (case saved of
                    None \<Rightarrow> True
                  | Some s \<Rightarrow> if s = [] then True else s = ''true'')\<rparr>
           in with_component a1 (App_applyShowSnow (showSnow a1) w)))"

section \<open>Running a sequence of operations\<close>

text \<open>The state a call ends in, whether it returned or threw.\<close>

fun state_after :: "'s result \<Rightarrow> 's" where
  "state_after (Inl (e, s)) = s"
| "state_after (Inr s) = s"

text \<open>The exception a call ended with, if any.\<close>

fun thrown :: "'s result \<Rightarrow> error option" where
  "thrown (Inl (e, s)) = Some e"
| "thrown (Inr s) = None"

text \<open>What a write to the store, and a read from it, end with in each storage mode.\<close>

definition write_outcome :: "storage_mode \<Rightarrow> error option" where
  "write_outcome m =
     (case m of
        Working \<Rightarrow> None
      | QuotaFull \<Rightarrow> Some QuotaExceededError
      | Disabled \<Rightarrow> Some SecurityError)"

definition read_outcome :: "storage_mode \<Rightarrow> error option" where
  "read_outcome m = (if m = Disabled then Some SecurityError else None)"

text \<open>Sequencing in one caller: a throw ends the sequence.\<close>

fun and_then :: "'s result \<Rightarrow> ('s \<Rightarrow> 's result) \<Rightarrow> 's result" where
  "and_then (Inl x) f = Inl x"
| "and_then (Inr s) f = f s"

text \<open>
  The page of the second version of App.vue holds the navigation, the hero section and
  the app state. Its preference operations, as events (the snow buttons of the hero
  section call \<^verbatim>\<open>toggleSnow\<close> of the app):
\<close>

datatype event =
    MountNavigation | ToggleTheme
  | MountHero | ToggleHeroTheme
  | MountApp | ToggleSnow

type_synonym page = "nav \<times> hero \<times> app \<times> browser"

fun step :: "event \<Rightarrow> page \<Rightarrow> page result" where
  "step MountNavigation (c, h, a, w) =
     (case SimpleNavigation_onMounted c w of
        Inl (e, (c', w')) \<Rightarrow> Inl (e, (c', h, a, w'))
      | Inr (c', w') \<Rightarrow> Inr (c', h, a, w'))"
| "step ToggleTheme (c, h, a, w) =
     (case SimpleNavigation_toggleTheme c w of
        Inl (e, (c', w')) \<Rightarrow> Inl (e, (c', h, a, w'))
      | Inr (c', w') \<Rightarrow> Inr (c', h, a, w'))"
| "step MountHero (c, h, a, w) =
     (case HeroSection_onMounted h w of
        Inl (e, (h', w')) \<Rightarrow> Inl (e, (c, h', a, w'))
      | Inr (h', w') \<Rightarrow> Inr (c, h', a, w'))"
| "step ToggleHeroTheme (c, h, a, w) =
     (case HeroSection_toggleTheme h w of
        Inl (e, (h', w')) \<Rightarrow> Inl (e, (c, h', a, w'))
      | Inr (h', w') \<Rightarrow> Inr (c, h', a, w'))"
| "step MountApp (c, h, a, w) =
     (case App_onMounted a w of
        Inl (e, (a', w')) \<Rightarrow> Inl (e, (c, h, a', w'))
      | Inr (a', w') \<Rightarrow> Inr (c, h, a', w'))"
| "step ToggleSnow (c, h, a, w) =
     (case App_toggleSnow a w of
        Inl (e, (a', w')) \<Rightarrow> Inl (e, (c, h, a', w'))
      | Inr (a', w') \<Rightarrow> Inr (c, h, a', w'))"

fun run :: "event list \<Rightarrow> page \<Rightarrow> page result" where
  "run [] s = Inr s"
| "run (ev # evs) s = and_then (step ev s) (run evs)"

text \<open>
  Two components hold a theme. The holder of an event is the component whose theme
  operation it is; the last holder of a sequence is the one that loaded or toggled the
  theme most recently (\<open>h0\<close> when the sequence has no theme event).
\<close>

datatype holder = Navigation | Hero

fun holder_of :: "event \<Rightarrow> holder option" where
  "holder_of MountNavigation = Some Navigation"
| "holder_of ToggleTheme = Some Navigation"
| "holder_of MountHero = Some Hero"
| "holder_of ToggleHeroTheme = Some Hero"
| "holder_of MountApp = None"
| "holder_of ToggleSnow = None"

fun last_holder :: "event list \<Rightarrow> holder option \<Rightarrow> holder option" where
  "last_holder [] h0 = h0"
| "last_holder (ev # evs) h0 =
     last_holder evs (case holder_of ev of None \<Rightarrow> h0 | Some o' \<Rightarrow> Some o')"

fun theme_of :: "holder \<Rightarrow> page \<Rightarrow> string" where
  "theme_of Navigation (c, h, a, w) = currentTheme c"
| "theme_of Hero (c, h, a, w) = currentTheme_HeroSection h"

definition is_snow_event :: "event \<Rightarrow> bool" where
  "is_snow_event ev = (ev = MountApp \<or> ev = ToggleSnow)"

text \<open>
  The root attribute is \<open>t\<close>, and so is the stored value as far as the code writes it:
  a load reads the store without writing back, so after it an absent or empty stored
  value stands beside the default.
\<close>

definition store_agrees :: "string \<Rightarrow> browser \<Rightarrow> bool" where
  "store_agrees t w =
     (data_theme w = Some t \<and>
      (items w ''theme'' = Some t \<or>
       (t = ''light'' \<and> (items w ''theme'' = None \<or> items w ''theme'' = Some []))))"

text \<open>The in-memory theme of a holder agrees with the root attribute and the store.\<close>

definition theme_consistent :: "holder \<Rightarrow> page \<Rightarrow> bool" where
  "theme_consistent o' s = store_agrees (theme_of o' s) (snd (snd (snd s)))"

definition snow_consistent :: "page \<Rightarrow> bool" where
  "snow_consistent s =
     (case s of (c, h, a, w) \<Rightarrow> items w ''showSnow'' = Some (toString (showSnow a)))"

definition valid_theme :: "string \<Rightarrow> bool" where
  "valid_theme t = (t = ''light'' \<or> t = ''dark'')"

text \<open>
  An in-memory theme is light or dark, or else it is the non-empty string that was
  stored under the theme key in the browser \<open>w0\<close> the page started with.
\<close>

definition valid_or_initial :: "browser \<Rightarrow> string \<Rightarrow> bool" where
  "valid_or_initial w0 t = (valid_theme t \<or> (items w0 ''theme'' = Some t \<and> t \<noteq> []))"

text \<open>
  What every state reached from a page that started with browser \<open>w0\<close> satisfies: both
  in-memory themes are valid or the initial one, and the stored theme is the initial
  one or a valid one.
\<close>

definition page_invariant :: "browser \<Rightarrow> page \<Rightarrow> bool" where
  "page_invariant w0 s =
     (case s of (c, h, a, w) \<Rightarrow>
        storage_mode w = Working \<and>
        valid_or_initial w0 (currentTheme c) \<and>
        valid_or_initial w0 (currentTheme_HeroSection h) \<and>
        (items w ''theme'' = items w0 ''theme'' \<or>
         (case items w ''theme'' of None \<Rightarrow> False | Some t \<Rightarrow> valid_theme t)))"

section \<open>Section components revealed by an intersection observer\<close>

text \<open>
  AboutSection.vue, ContactSection.vue (\<^verbatim>\<open>src/src/components\<close>) and the projects
  section (\<^verbatim>\<open>src/unnamed/part_005\<close>, here ProjectsSection.vue) each hold a visibility
  flag (\<^verbatim>\<open>isVisible\<close>, \<^verbatim>\<open>sectionVisible\<close>) and a template ref to their root element
  (\<^verbatim>\<open>aboutRef\<close>, \<^verbatim>\<open>contactRef\<close>, \<^verbatim>\<open>sectionRef\<close>), and create an observer in their
  mount hook. \<open>observed\<close> is the list of targets of that observer, empty while no
  observer exists.
\<close>

record reveal =
  isVisible :: bool
  elementRef :: "string option"
  observed :: "string list"

record entry =
  target :: string
  isIntersecting :: bool

definition reveal_setup :: "string option \<Rightarrow> reveal" where
  "reveal_setup el = \<lparr>isVisible = False, elementRef = el, observed = []\<rparr>"

text \<open>\<^verbatim>\<open>observer.observe(el)\<close> and \<^verbatim>\<open>observer.unobserve(el)\<close> on the target list.\<close>

definition observe :: "string \<Rightarrow> string list \<Rightarrow> string list" where
  "observe el ts = (if el \<in> set ts then ts else ts @ [el])"

definition unobserve :: "string \<Rightarrow> string list \<Rightarrow> string list" where
  "unobserve el ts = removeAll el ts"

text \<open>
  \<^verbatim>\<open>new IntersectionObserver(...)\<close> in a browser without the constructor is a
  ReferenceError; no component below guards the call.
\<close>

definition AboutSection_onMounted :: "reveal \<Rightarrow> browser \<Rightarrow> reveal result" where
  "AboutSection_onMounted r w =
     (case elementRef r of
        None \<Rightarrow> Inr r
      | Some el \<Rightarrow>
          if \<not> has_IntersectionObserver w then Inl (ReferenceError, r)
          else Inr (r\<lparr>observed := observe el (observed r)\<rparr>))"

fun AboutSection_callback :: "entry list \<Rightarrow> reveal \<Rightarrow> reveal" where
  "AboutSection_callback [] r = r"
| "AboutSection_callback (e # es) r =
     AboutSection_callback es (if isIntersecting e then r\<lparr>isVisible := True\<rparr> else r)"

definition ContactSection_onMounted :: "reveal \<Rightarrow> browser \<Rightarrow> reveal result" where
  "ContactSection_onMounted r w =
     (case elementRef r of
        None \<Rightarrow> Inr r
      | Some el \<Rightarrow>
          if \<not> has_IntersectionObserver w then Inl (ReferenceError, r)
          else Inr (r\<lparr>observed := observe el (observed r)\<rparr>))"

fun ContactSection_callback :: "entry list \<Rightarrow> reveal \<Rightarrow> reveal" where
  "ContactSection_callback [] r = r"
| "ContactSection_callback (e # es) r =
     ContactSection_callback es (if isIntersecting e then r\<lparr>isVisible := True\<rparr> else r)"

text \<open>
  ProjectsSection.vue: the part of the mount hook that sets up the observer (the
  structured-data injection after it is outside the model). Its callback also stops
  observing the target. Its unmount hook only removes the structured data.
\<close>

definition ProjectsSection_onMounted :: "reveal \<Rightarrow> browser \<Rightarrow> reveal result" where
  "ProjectsSection_onMounted r w =
     (case elementRef r of
        None \<Rightarrow> Inr r
      | Some el \<Rightarrow>
          if \<not> has_IntersectionObserver w then Inl (ReferenceError, r)
          else Inr (r\<lparr>observed := observe el (observed r)\<rparr>))"

fun ProjectsSection_callback :: "entry list \<Rightarrow> reveal \<Rightarrow> reveal" where
  "ProjectsSection_callback [] r = r"
| "ProjectsSection_callback (e # es) r =
     ProjectsSection_callback es
       (if isIntersecting e
        then r\<lparr>isVisible := True, observed := unobserve (target e) (observed r)\<rparr>
        else r)"

definition ProjectsSection_onUnmounted :: "reveal \<Rightarrow> reveal" where
  "ProjectsSection_onUnmounted r = r"

text \<open>
  The browser reports a batch of observations: only entries of targets the observer
  currently observes reach the callback, and no callback runs for an empty batch.
\<close>

definition deliver :: "(entry list \<Rightarrow> reveal \<Rightarrow> reveal) \<Rightarrow> entry list \<Rightarrow> reveal \<Rightarrow> reveal" where
  "deliver callback entries r =
     (let es = filter (\<lambda>e. target e \<in> set (observed r)) entries
      in if es = [] then r else callback es r)"

text \<open>
  Unmounting a component runs the unmount hooks it registered. AboutSection.vue and
  ContactSection.vue register none (ContactSection.vue imports \<^verbatim>\<open>onUnmounted\<close> and
  never calls it), so their state, observer included, is what it was.
\<close>

definition unmount_without_hook :: "reveal \<Rightarrow> reveal" where
  "unmount_without_hook r = r"

section \<open>The transition rule of the specification, for comparison\<close>

text \<open>
  The rule as the specification words it: a section qualifies when its effective top
  (top offset minus the navigation-bar height) is at most the scroll position plus the
  look-ahead offset; the last qualifying section in document order becomes active, and the
  state holds when none qualifies.
\<close>

definition spec_qualifies :: "int \<Rightarrow> int \<Rightarrow> browser \<Rightarrow> section_descriptor \<Rightarrow> bool" where
  "spec_qualifies navHeight lookAhead w s =
     (case getElementById w (section_id s) of
        None \<Rightarrow> False
      | Some el \<Rightarrow> doc_top el - navHeight \<le> scrollY w + lookAhead)"

definition spec_updateActiveSection ::
  "int \<Rightarrow> int \<Rightarrow> section_descriptor list \<Rightarrow> nav \<Rightarrow> browser \<Rightarrow> nav" where
  "spec_updateActiveSection navHeight lookAhead secs c w =
     (case rev (filter (spec_qualifies navHeight lookAhead w) secs) of
        [] \<Rightarrow> c
      | s # _ \<Rightarrow> c\<lparr>activeSection := section_id s\<rparr>)"

text \<open>What the code tests instead: the probe position lies inside the section's box.\<close>

definition contains_probe :: "browser \<Rightarrow> section_descriptor \<Rightarrow> bool" where
  "contains_probe w s =
     (case getElementById w (section_id s) of
        None \<Rightarrow> False
      | Some el \<Rightarrow> doc_top el \<le> scrollY w + 100 \<and> scrollY w + 100 < doc_top el + offsetHeight el)"

definition present :: "browser \<Rightarrow> section_descriptor \<Rightarrow> bool" where
  "present w s = (getElementById w (section_id s) \<noteq> None)"

section \<open>Example pages\<close>

text \<open>
  Three sections of height 1000 at document offsets 0, 1000 and 2000; the fourth section
  of the navigation (contact) is not in the document.
\<close>

definition three_sections :: "string \<rightharpoonup> element" where
  "three_sections =
     [''hero'' \<mapsto> \<lparr>doc_top = 0, offsetHeight = 1000\<rparr>,
      ''about'' \<mapsto> \<lparr>doc_top = 1000, offsetHeight = 1000\<rparr>,
      ''projects'' \<mapsto> \<lparr>doc_top = 2000, offsetHeight = 1000\<rparr>]"

definition page_at :: "int \<Rightarrow> browser" where
  "page_at y =
     \<lparr>elements = three_sections, scrollY = y, scrollTo_calls = [], scroll_listeners = [],
      data_theme = None, storage_mode = Working, items = Map.empty,
      has_IntersectionObserver = True\<rparr>"

definition old_browser :: browser where
  "old_browser = (page_at 0)\<lparr>has_IntersectionObserver := False\<rparr>"

definition qualifying :: "string \<Rightarrow> entry" where
  "qualifying el = \<lparr>target = el, isIntersecting = True\<rparr>"

definition blue_page :: browser where
  "blue_page = (page_at 0)\<lparr>items := [''theme'' \<mapsto> ''blue'']\<rparr>"

definition full_page :: browser where
  "full_page = (page_at 0)\<lparr>storage_mode := QuotaFull\<rparr>"


text \<open>The components after a successful mount on their elements.\<close>

definition about_mounted :: reveal where
  "about_mounted =
     state_after (AboutSection_onMounted (reveal_setup (Some ''about'')) (page_at 0))"

definition contact_mounted :: reveal where
  "contact_mounted =
     state_after (ContactSection_onMounted (reveal_setup (Some ''contact'')) (page_at 0))"

definition projects_mounted :: reveal where
  "projects_mounted =
     state_after (ProjectsSection_onMounted (reveal_setup (Some ''projects'')) (page_at 0))"

definition nav_mounted :: "nav \<times> browser" where
  "nav_mounted = state_after (SimpleNavigation_onMounted nav_setup (page_at 0))"

section \<open>Evaluation of the example pages\<close>

lemma page_at_simps:
  "elements (page_at y) = three_sections"
  "scrollY (page_at y) = y"
  "scrollTo_calls (page_at y) = []"
  "scroll_listeners (page_at y) = []"
  "data_theme (page_at y) = None"
  "storage_mode (page_at y) = Working"
  "items (page_at y) = Map.empty"
  "has_IntersectionObserver (page_at y) = True"
  by (simp_all add: page_at_def)

lemma three_sections_simps:
  "three_sections ''hero'' = Some \<lparr>doc_top = 0, offsetHeight = 1000\<rparr>"
  "three_sections ''about'' = Some \<lparr>doc_top = 1000, offsetHeight = 1000\<rparr>"
  "three_sections ''projects'' = Some \<lparr>doc_top = 2000, offsetHeight = 1000\<rparr>"
  "three_sections ''contact'' = None"
  "three_sections ''nonexistent'' = None"
  by (simp_all add: three_sections_def)

section \<open>Scroll-spy\<close>

lemma scan_sections_skips_missing:
  "scan_sections p secs c w = scan_sections p (filter (present w) secs) c w"
  by (induction secs) (auto simp: present_def Let_def split: option.splits)

lemma scan_sections_find:
  "scan_sections (scrollY w + 100) secs c w =
     (case find (contains_probe w) secs of
        None \<Rightarrow> c
      | Some s \<Rightarrow> c\<lparr>activeSection := section_id s\<rparr>)"
  by (induction secs) (auto simp: contains_probe_def rect_top_def Let_def split: option.splits)

text \<open>
  The rule "last section whose effective top is at most the scroll position plus the
  look-ahead" is not what \<^verbatim>\<open>updateActiveSection\<close> computes. On the page with three
  sections of height 1000 at 0, 1000 and 2000, at scroll position 850 the code keeps the
  first section active (the probe 950 lies in its box), while the rule with navigation
  height 80 and the code's look-ahead 100 selects the second (920 is at most 950). With a
  look-ahead of 0 the two differ at scroll position 910, the other way round.
\<close>

theorem updateActiveSection_last_qualifying_counterexample:
  "activeSection (updateActiveSection nav_setup (page_at 850)) = ''hero'' \<and>
   activeSection (spec_updateActiveSection 80 100 sections nav_setup (page_at 850)) = ''about'' \<and>
   activeSection (updateActiveSection nav_setup (page_at 910)) = ''about'' \<and>
   activeSection (spec_updateActiveSection 80 0 sections nav_setup (page_at 910)) = ''hero''"
  by (simp add: updateActiveSection_def spec_updateActiveSection_def spec_qualifies_def
      sections_def nav_setup_def getElementById_def rect_top_def page_at_simps
      three_sections_simps)

text \<open>
  Claim C1, as the code has it: for every scroll-position sample,
  \<^verbatim>\<open>updateActiveSection\<close> sets the active section to the first section in document
  order whose element exists and whose box contains the probe position (top offset at
  most scroll position plus 100, and scroll position plus 100 below top offset plus
  height; no navigation-bar height is subtracted), and leaves the active section
  unchanged when no section does. In particular, with three sections of height 1000 at
  top offsets 0, 1000 and 2000 and scroll position 950, the active section is the second
  section.
\<close>

theorem updateActiveSection_first_containing:
  "updateActiveSection c w =
     (case find (contains_probe w) sections of
        None \<Rightarrow> c
      | Some s \<Rightarrow> c\<lparr>activeSection := section_id s\<rparr>) \<and>
   activeSection (updateActiveSection nav_setup (page_at 950)) = ''about''"
proof
  show "updateActiveSection c w =
     (case find (contains_probe w) sections of
        None \<Rightarrow> c
      | Some s \<Rightarrow> c\<lparr>activeSection := section_id s\<rparr>)"
    unfolding updateActiveSection_def by (rule scan_sections_find)
  show "activeSection (updateActiveSection nav_setup (page_at 950)) = ''about''"
    by (simp add: updateActiveSection_def sections_def nav_setup_def getElementById_def
        rect_top_def page_at_simps three_sections_simps)
qed

text \<open>
  The boundary on that page is at scroll position 900, where the probe reaches the top
  of the second section.
\<close>

theorem updateActiveSection_first_containing_witness:
  "map (\<lambda>y. activeSection (updateActiveSection nav_setup (page_at y)))
     [899, 900, 919, 920, 921]
   = [''hero'', ''about'', ''about'', ''about'', ''about'']"
proof -
  have "\<And>y. updateActiveSection nav_setup (page_at y) =
     (case find (contains_probe (page_at y)) sections of
        None \<Rightarrow> nav_setup
      | Some s \<Rightarrow> nav_setup\<lparr>activeSection := section_id s\<rparr>)"
    using updateActiveSection_first_containing by blast
  then show ?thesis
    by (simp add: contains_probe_def sections_def nav_setup_def getElementById_def
        page_at_simps three_sections_simps)
qed

text \<open>
  Claim C7: for a section id whose element is absent from the document,
  \<^verbatim>\<open>scrollToSection\<close> returns without a scroll request and without touching the
  active section (the whole state is as before), and \<^verbatim>\<open>updateActiveSection\<close> skips
  missing sections: it computes what the scan over the sections present in the document
  computes. Neither function has a throwing path.
\<close>

theorem missing_section_is_skipped:
  "(getElementById w sectionId = None \<longrightarrow> scrollToSection sectionId c w = (c, w)) \<and>
   updateActiveSection c w = scan_sections (scrollY w + 100) (filter (present w) sections) c w"
  using scan_sections_skips_missing[of "scrollY w + 100" sections c w]
  by (simp add: scrollToSection_def updateActiveSection_def)

theorem missing_section_is_skipped_witness:
  "getElementById (page_at 0) ''nonexistent'' = None \<and>
   scrollToSection ''nonexistent'' nav_setup (page_at 0) = (nav_setup, page_at 0) \<and>
   filter (present (page_at 0)) sections = butlast sections \<and>
   updateActiveSection nav_setup (page_at 0) =
     scan_sections 100 (butlast sections) nav_setup (page_at 0)"
proof -
  have n: "getElementById (page_at 0) ''nonexistent'' = None"
    by (simp add: getElementById_def page_at_simps three_sections_simps)
  have f: "filter (present (page_at 0)) sections = butlast sections"
    by (simp add: present_def sections_def getElementById_def page_at_simps
        three_sections_simps)
  from missing_section_is_skipped[of "page_at 0" "''nonexistent''" nav_setup] n f
  show ?thesis
    by (simp add: page_at_simps)
qed

section \<open>Preferences: theme and snow\<close>

lemma scan_sections_currentTheme [simp]:
  "currentTheme (scan_sections p secs c w) = currentTheme c"
  by (induction secs) (auto simp: Let_def split: option.splits)

lemma updateActiveSection_currentTheme [simp]:
  "currentTheme (updateActiveSection c w) = currentTheme c"
  by (simp add: updateActiveSection_def)

lemma nav_mount_returns:
  assumes "storage_mode w \<noteq> Disabled"
  shows "\<exists>c' w'. SimpleNavigation_onMounted c w = Inr (c', w') \<and>
           currentTheme c' = or_default (items w ''theme'') ''light'' \<and>
           data_theme w' = Some (currentTheme c') \<and>
           items w' = items w \<and> storage_mode w' = storage_mode w"
  using assms
  by (simp add: SimpleNavigation_onMounted_def getItem_def setAttribute_data_theme_def
      addEventListener_scroll_def Let_def)

lemma nav_toggle_returns:
  assumes "storage_mode w = Working"
  shows "\<exists>c' w'. SimpleNavigation_toggleTheme c w = Inr (c', w') \<and>
           valid_theme (currentTheme c') \<and>
           currentTheme c' \<noteq> currentTheme c \<and>
           data_theme w' = Some (currentTheme c') \<and>
           items w' = (items w)(''theme'' \<mapsto> currentTheme c') \<and>
           storage_mode w' = Working"
  using assms
  by (simp add: SimpleNavigation_toggleTheme_def setItem_def setAttribute_data_theme_def
      valid_theme_def Let_def)

lemma app_mount_returns:
  assumes "storage_mode w = Working"
  shows "\<exists>a' w'. App_onMounted a w = Inr (a', w') \<and>
           items w' = (items w)(''showSnow'' \<mapsto> toString (showSnow a')) \<and>
           data_theme w' = data_theme w \<and> storage_mode w' = Working"
  using assms
  by (simp add: App_onMounted_def App_applyShowSnow_def with_component_def getItem_def
      setItem_def Let_def)

lemma app_toggle_returns:
  assumes "storage_mode w = Working"
  shows "\<exists>a' w'. App_toggleSnow a w = Inr (a', w') \<and>
           showSnow a' = (\<not> showSnow a) \<and>
           items w' = (items w)(''showSnow'' \<mapsto> toString (showSnow a')) \<and>
           data_theme w' = data_theme w \<and> storage_mode w' = Working"
  using assms
  by (simp add: App_toggleSnow_def App_applyShowSnow_def with_component_def setItem_def
      Let_def)
lemma hero_mount_returns:
  assumes "storage_mode w \<noteq> Disabled"
  shows "\<exists>h' w'. HeroSection_onMounted h w = Inr (h', w') \<and>
           currentTheme_HeroSection h' = or_default (items w ''theme'') ''light'' \<and>
           data_theme w' = Some (currentTheme_HeroSection h') \<and>
           items w' = items w \<and> storage_mode w' = storage_mode w"
  using assms
  by (simp add: HeroSection_onMounted_def getItem_def setAttribute_data_theme_def Let_def)

lemma hero_toggle_returns:
  assumes "storage_mode w = Working"
  shows "\<exists>h' w'. HeroSection_toggleTheme h w = Inr (h', w') \<and>
           valid_theme (currentTheme_HeroSection h') \<and>
           currentTheme_HeroSection h' \<noteq> currentTheme_HeroSection h \<and>
           data_theme w' = Some (currentTheme_HeroSection h') \<and>
           items w' = (items w)(''theme'' \<mapsto> currentTheme_HeroSection h') \<and>
           storage_mode w' = Working"
  using assms
  by (simp add: HeroSection_toggleTheme_def setItem_def setAttribute_data_theme_def
      valid_theme_def Let_def)

subsection \<open>The invariant of the page\<close>

text \<open>What a load of the theme and a toggle of the theme leave behind.\<close>

lemma load_agrees:
  "t = or_default (items w ''theme'') ''light'' \<Longrightarrow> data_theme w' = Some t \<Longrightarrow>
   items w' = items w \<Longrightarrow> store_agrees t w'"
  by (auto simp: store_agrees_def or_default_def split: option.splits)

lemma load_valid_or_initial:
  "t = or_default (items w ''theme'') ''light'' \<Longrightarrow>
   items w ''theme'' = items w0 ''theme'' \<or>
     (case items w ''theme'' of None \<Rightarrow> False | Some t \<Rightarrow> valid_theme t) \<Longrightarrow>
   valid_or_initial w0 t"
  by (auto simp: valid_or_initial_def or_default_def valid_theme_def split: option.splits)

lemma toggle_agrees:
  "data_theme w' = Some t \<Longrightarrow> items w' = (items w)(''theme'' \<mapsto> t) \<Longrightarrow> store_agrees t w'"
  by (simp add: store_agrees_def)

lemma snow_write_keeps_agreement:
  "items w' = (items w)(''showSnow'' \<mapsto> x) \<Longrightarrow> data_theme w' = data_theme w \<Longrightarrow>
   store_agrees t w \<Longrightarrow> store_agrees t w'"
  by (simp add: store_agrees_def)

lemma step_preserves:
  assumes "page_invariant w0 s"
  shows "\<exists>s'. step ev s = Inr s' \<and> page_invariant w0 s' \<and>
           (case holder_of ev of
              Some o' \<Rightarrow> theme_consistent o' s'
            | None \<Rightarrow> (\<forall>o'. theme_consistent o' s \<longrightarrow> theme_consistent o' s')) \<and>
           (if is_snow_event ev then snow_consistent s'
            else (snow_consistent s \<longrightarrow> snow_consistent s'))"
proof -
  obtain c h a w where s: "s = (c, h, a, w)" by (cases s)
  from assms s have wk: "storage_mode w = Working"
    and tc: "valid_or_initial w0 (currentTheme c)"
    and th: "valid_or_initial w0 (currentTheme_HeroSection h)"
    and st: "items w ''theme'' = items w0 ''theme'' \<or>
             (case items w ''theme'' of None \<Rightarrow> False | Some t \<Rightarrow> valid_theme t)"
    by (simp_all add: page_invariant_def)
  from wk have nd: "storage_mode w \<noteq> Disabled" by simp
  show ?thesis
  proof (cases ev)
    case MountNavigation
    from nav_mount_returns[OF nd, of c] obtain c' w' where
      r: "SimpleNavigation_onMounted c w = Inr (c', w')"
      and t: "currentTheme c' = or_default (items w ''theme'') ''light''"
      and d: "data_theme w' = Some (currentTheme c')"
      and i: "items w' = items w" and m: "storage_mode w' = storage_mode w"
      by blast
    have inv: "page_invariant w0 (c', h, a, w')"
      using load_valid_or_initial[OF t st] th st i m wk by (simp add: page_invariant_def)
    have ag: "theme_consistent Navigation (c', h, a, w')"
      using load_agrees[OF t d i] by (simp add: theme_consistent_def)
    have sc: "snow_consistent (c, h, a, w) \<longrightarrow> snow_consistent (c', h, a, w')"
      using i by (simp add: snow_consistent_def)
    from r inv ag sc show ?thesis
      by (simp add: s MountNavigation is_snow_event_def)
  next
    case ToggleTheme
    from nav_toggle_returns[OF wk, of c] obtain c' w' where
      r: "SimpleNavigation_toggleTheme c w = Inr (c', w')"
      and v: "valid_theme (currentTheme c')"
      and d: "data_theme w' = Some (currentTheme c')"
      and i: "items w' = (items w)(''theme'' \<mapsto> currentTheme c')"
      and m: "storage_mode w' = Working"
      by blast
    have inv: "page_invariant w0 (c', h, a, w')"
      using v th i m by (simp add: page_invariant_def valid_or_initial_def)
    have ag: "theme_consistent Navigation (c', h, a, w')"
      using toggle_agrees[OF d i] by (simp add: theme_consistent_def)
    have sc: "snow_consistent (c, h, a, w) \<longrightarrow> snow_consistent (c', h, a, w')"
      using i by (simp add: snow_consistent_def)
    from r inv ag sc show ?thesis
      by (simp add: s ToggleTheme is_snow_event_def)
  next
    case MountHero
    from hero_mount_returns[OF nd, of h] obtain h' w' where
      r: "HeroSection_onMounted h w = Inr (h', w')"
      and t: "currentTheme_HeroSection h' = or_default (items w ''theme'') ''light''"
      and d: "data_theme w' = Some (currentTheme_HeroSection h')"
      and i: "items w' = items w" and m: "storage_mode w' = storage_mode w"
      by blast
    have inv: "page_invariant w0 (c, h', a, w')"
      using load_valid_or_initial[OF t st] tc st i m wk by (simp add: page_invariant_def)
    have ag: "theme_consistent Hero (c, h', a, w')"
      using load_agrees[OF t d i] by (simp add: theme_consistent_def)
    have sc: "snow_consistent (c, h, a, w) \<longrightarrow> snow_consistent (c, h', a, w')"
      using i by (simp add: snow_consistent_def)
    from r inv ag sc show ?thesis
      by (simp add: s MountHero is_snow_event_def)
  next
    case ToggleHeroTheme
    from hero_toggle_returns[OF wk, of h] obtain h' w' where
      r: "HeroSection_toggleTheme h w = Inr (h', w')"
      and v: "valid_theme (currentTheme_HeroSection h')"
      and d: "data_theme w' = Some (currentTheme_HeroSection h')"
      and i: "items w' = (items w)(''theme'' \<mapsto> currentTheme_HeroSection h')"
      and m: "storage_mode w' = Working"
      by blast
    have inv: "page_invariant w0 (c, h', a, w')"
      using v tc i m by (simp add: page_invariant_def valid_or_initial_def)
    have ag: "theme_consistent Hero (c, h', a, w')"
      using toggle_agrees[OF d i] by (simp add: theme_consistent_def)
    have sc: "snow_consistent (c, h, a, w) \<longrightarrow> snow_consistent (c, h', a, w')"
      using i by (simp add: snow_consistent_def)
    from r inv ag sc show ?thesis
      by (simp add: s ToggleHeroTheme is_snow_event_def)
  next
    case MountApp
    from app_mount_returns[OF wk, of a] obtain a' w' where
      r: "App_onMounted a w = Inr (a', w')"
      and i: "items w' = (items w)(''showSnow'' \<mapsto> toString (showSnow a'))"
      and d: "data_theme w' = data_theme w" and m: "storage_mode w' = Working"
      by blast
    have inv: "page_invariant w0 (c, h, a', w')"
      using tc th st i m by (simp add: page_invariant_def)
    have sc: "snow_consistent (c, h, a', w')"
      using i by (simp add: snow_consistent_def)
    have ag: "\<forall>o'. theme_consistent o' (c, h, a, w) \<longrightarrow> theme_consistent o' (c, h, a', w')"
    proof (intro allI impI)
      fix o' assume "theme_consistent o' (c, h, a, w)"
      then show "theme_consistent o' (c, h, a', w')"
        using snow_write_keeps_agreement[OF i d]
        by (cases o') (simp_all add: theme_consistent_def)
    qed
    from r inv ag sc show ?thesis
      by (simp add: s MountApp is_snow_event_def)
  next
    case ToggleSnow
    from app_toggle_returns[OF wk, of a] obtain a' w' where
      r: "App_toggleSnow a w = Inr (a', w')"
      and i: "items w' = (items w)(''showSnow'' \<mapsto> toString (showSnow a'))"
      and d: "data_theme w' = data_theme w" and m: "storage_mode w' = Working"
      by blast
    have inv: "page_invariant w0 (c, h, a', w')"
      using tc th st i m by (simp add: page_invariant_def)
    have sc: "snow_consistent (c, h, a', w')"
      using i by (simp add: snow_consistent_def)
    have ag: "\<forall>o'. theme_consistent o' (c, h, a, w) \<longrightarrow> theme_consistent o' (c, h, a', w')"
    proof (intro allI impI)
      fix o' assume "theme_consistent o' (c, h, a, w)"
      then show "theme_consistent o' (c, h, a', w')"
        using snow_write_keeps_agreement[OF i d]
        by (cases o') (simp_all add: theme_consistent_def)
    qed
    from r inv ag sc show ?thesis
      by (simp add: s ToggleSnow is_snow_event_def)
  qed
qed

lemma run_preserves:
  "page_invariant w0 s \<Longrightarrow>
   (case h0 of None \<Rightarrow> True | Some o' \<Rightarrow> theme_consistent o' s) \<Longrightarrow>
   \<exists>s'. run evs s = Inr s' \<and> page_invariant w0 s' \<and>
        (case last_holder evs h0 of None \<Rightarrow> True | Some o' \<Rightarrow> theme_consistent o' s') \<and>
        ((\<exists>ev \<in> set evs. is_snow_event ev) \<or> snow_consistent s
           \<longrightarrow> snow_consistent s')"
proof (induction evs arbitrary: s h0)
  case Nil
  then show ?case by simp
next
  case (Cons ev evs)
  from step_preserves[OF Cons.prems(1), of ev] obtain s1 where
    s1: "step ev s = Inr s1" and inv1: "page_invariant w0 s1"
    and t1: "case holder_of ev of
               Some o' \<Rightarrow> theme_consistent o' s1
             | None \<Rightarrow> (\<forall>o'. theme_consistent o' s \<longrightarrow> theme_consistent o' s1)"
    and n1: "if is_snow_event ev then snow_consistent s1
             else (snow_consistent s \<longrightarrow> snow_consistent s1)"
    by blast
  let ?h1 = "case holder_of ev of None \<Rightarrow> h0 | Some o' \<Rightarrow> Some o'"
  have h1: "case ?h1 of None \<Rightarrow> True | Some o' \<Rightarrow> theme_consistent o' s1"
    using t1 Cons.prems(2) by (auto split: option.splits)
  from Cons.IH[OF inv1 h1] obtain s' where
    r: "run evs s1 = Inr s'" and inv': "page_invariant w0 s'"
    and t': "case last_holder evs ?h1 of None \<Rightarrow> True | Some o' \<Rightarrow> theme_consistent o' s'"
    and n': "(\<exists>ev \<in> set evs. is_snow_event ev) \<or> snow_consistent s1
               \<longrightarrow> snow_consistent s'"
    by blast
  have "run (ev # evs) s = Inr s'" using s1 r by simp
  moreover have "case last_holder (ev # evs) h0 of
                   None \<Rightarrow> True | Some o' \<Rightarrow> theme_consistent o' s'"
    using t' by simp
  moreover have "(\<exists>e \<in> set (ev # evs). is_snow_event e) \<or> snow_consistent s
                   \<longrightarrow> snow_consistent s'"
    using n1 n' by (auto split: if_splits)
  ultimately show ?case using inv' by blast
qed

lemma setup_invariant:
  "storage_mode w0 = Working \<Longrightarrow>
   page_invariant w0 (nav_setup, hero_setup, app_setup, w0)"
  by (simp add: page_invariant_def valid_or_initial_def nav_setup_def hero_setup_def
      valid_theme_def)

lemmas page_ops =
  SimpleNavigation_onMounted_def SimpleNavigation_toggleTheme_def
  HeroSection_onMounted_def HeroSection_toggleTheme_def
  App_onMounted_def App_toggleSnow_def App_applyShowSnow_def with_component_def
  getItem_def setItem_def setAttribute_data_theme_def addEventListener_scroll_def
  or_default_def Let_def

text \<open>
  Two ways in which the code leaves the stated invariant. The load of the theme takes
  any non-empty stored string as the theme: with \<^verbatim>\<open>blue\<close> stored under the theme key,
  the navigation's mount hook leaves \<^verbatim>\<open>blue\<close> as the in-memory theme. And the two
  theme refs of the page are not synchronised: after both components have loaded the
  theme from an empty store and the hero section has toggled it, the navigation still
  holds \<^verbatim>\<open>light\<close> in memory while the root attribute and the store say \<^verbatim>\<open>dark\<close>.
\<close>

theorem theme_load_keeps_any_stored_string_counterexample:
  "\<not> valid_theme (theme_of Navigation (state_after
        (run [MountNavigation] (nav_setup, hero_setup, app_setup, blue_page)))) \<and>
   theme_of Navigation (state_after
        (run [MountNavigation, MountHero, ToggleHeroTheme]
           (nav_setup, hero_setup, app_setup, page_at 0))) = ''light'' \<and>
   data_theme (snd (snd (snd (state_after
        (run [MountNavigation, MountHero, ToggleHeroTheme]
           (nav_setup, hero_setup, app_setup, page_at 0)))))) = Some ''dark'' \<and>
   items (snd (snd (snd (state_after
        (run [MountNavigation, MountHero, ToggleHeroTheme]
           (nav_setup, hero_setup, app_setup, page_at 0)))))) ''theme'' = Some ''dark''"
  by (simp add: page_ops blue_page_def page_at_simps valid_theme_def nav_setup_def
      hero_setup_def)

text \<open>
  Claim C2, as the code has it: with working storage, after any sequence of loads (mount
  hooks) and toggles of the navigation, the hero section and the app, started from the
  freshly set-up components, every operation returns normally and
  \<^item> each in-memory theme (the navigation's and the hero section's) is light or dark,
    unless it is the non-empty string that was stored under the theme key at the start,
    which a load takes over unchecked (the animation value is a boolean by its type);
  \<^item> once a theme load or toggle has run, the in-memory theme of the component that ran
    the most recent one equals the root's theme attribute, and equals the stored theme,
    or else is the default light beside an absent or empty stored value (a load does
    not write back); nothing is said of the other component's in-memory theme;
  \<^item> once a snow load or toggle has run, the stored snow text is the text of the
    in-memory boolean.
\<close>

theorem preferences_consistent_after_events:
  assumes "storage_mode w0 = Working"
  shows "\<exists>c h a w. run evs (nav_setup, hero_setup, app_setup, w0) = Inr (c, h, a, w) \<and>
           valid_or_initial w0 (currentTheme c) \<and>
           valid_or_initial w0 (currentTheme_HeroSection h) \<and>
           (case last_holder evs None of
              None \<Rightarrow> True
            | Some o' \<Rightarrow> theme_consistent o' (c, h, a, w)) \<and>
           ((\<exists>ev \<in> set evs. is_snow_event ev) \<longrightarrow> snow_consistent (c, h, a, w))"
proof -
  from run_preserves[OF setup_invariant[OF assms], of None evs] obtain s' where
    r: "run evs (nav_setup, hero_setup, app_setup, w0) = Inr s'"
    and inv: "page_invariant w0 s'"
    and t: "case last_holder evs None of None \<Rightarrow> True | Some o' \<Rightarrow> theme_consistent o' s'"
    and n: "(\<exists>ev \<in> set evs. is_snow_event ev) \<longrightarrow> snow_consistent s'"
    by auto
  obtain c h a w where s': "s' = (c, h, a, w)" by (cases s')
  from r inv t n s' show ?thesis
    by (auto simp: page_invariant_def)
qed

theorem preferences_consistent_after_events_witness:
  "storage_mode blue_page = Working \<and>
   last_holder [MountApp, MountNavigation, MountHero, ToggleHeroTheme, ToggleSnow] None
     = Some Hero \<and>
   (\<exists>ev \<in> set [MountApp, MountNavigation, MountHero, ToggleHeroTheme, ToggleSnow].
      is_snow_event ev) \<and>
   (\<exists>c h a w. run [MountApp, MountNavigation, MountHero, ToggleHeroTheme, ToggleSnow]
                (nav_setup, hero_setup, app_setup, blue_page) = Inr (c, h, a, w) \<and>
            currentTheme c = ''blue'' \<and> items blue_page ''theme'' = Some ''blue'' \<and>
            currentTheme_HeroSection h = ''light'' \<and>
            theme_consistent Hero (c, h, a, w) \<and> snow_consistent (c, h, a, w))"
proof -
  let ?evs = "[MountApp, MountNavigation, MountHero, ToggleHeroTheme, ToggleSnow]"
  have w: "storage_mode blue_page = Working" by (simp add: blue_page_def page_at_simps)
  have b: "items blue_page ''theme'' = Some ''blue''" by (simp add: blue_page_def)
  have l: "last_holder ?evs None = Some Hero" by simp
  have n: "\<exists>ev \<in> set ?evs. is_snow_event ev" by (simp add: is_snow_event_def)
  from preferences_consistent_after_events[OF w, of ?evs] l n
  obtain c h a w' where
    r: "run ?evs (nav_setup, hero_setup, app_setup, blue_page) = Inr (c, h, a, w')"
    and tc: "theme_consistent Hero (c, h, a, w')" and sc: "snow_consistent (c, h, a, w')"
    by auto
  have v: "theme_of Navigation (state_after
             (run ?evs (nav_setup, hero_setup, app_setup, blue_page))) = ''blue'' \<and>
           theme_of Hero (state_after
             (run ?evs (nav_setup, hero_setup, app_setup, blue_page))) = ''light''"
    by (simp add: page_ops blue_page_def page_at_simps nav_setup_def hero_setup_def)
  with r have "currentTheme c = ''blue''" "currentTheme_HeroSection h = ''light''"
    by simp_all
  with w b l n r tc sc show ?thesis by blast
qed

subsection \<open>Storage that throws\<close>

lemma thrown_with_component [simp]: "thrown (with_component c r) = thrown r"
  by (cases r) (auto simp: with_component_def)

lemma thrown_applyTheme: "thrown (NavBar_applyTheme v w) = write_outcome (storage_mode w)"
  by (cases "storage_mode w")
     (simp_all add: NavBar_applyTheme_def setItem_def setAttribute_data_theme_def
        write_outcome_def Let_def)

lemma thrown_applyShowSnow: "thrown (App_applyShowSnow v w) = write_outcome (storage_mode w)"
  by (cases "storage_mode w") (simp_all add: App_applyShowSnow_def setItem_def write_outcome_def)

lemma thrown_nav_toggle:
  "thrown (SimpleNavigation_toggleTheme c w) = write_outcome (storage_mode w)"
  by (cases "storage_mode w")
     (simp_all add: SimpleNavigation_toggleTheme_def setItem_def setAttribute_data_theme_def
        write_outcome_def Let_def)

lemma thrown_nav_mount:
  "thrown (SimpleNavigation_onMounted c w) = read_outcome (storage_mode w)"
  by (simp add: SimpleNavigation_onMounted_def getItem_def read_outcome_def Let_def)

lemma thrown_navbar_toggle:
  "thrown (NavBar_toggleTheme c w) = write_outcome (storage_mode w)"
  by (simp add: NavBar_toggleTheme_def Let_def thrown_applyTheme)

lemma thrown_navbar_mount:
  "thrown (NavBar_onMounted c w) = write_outcome (storage_mode w)"
  by (cases "storage_mode w")
     (simp_all add: NavBar_onMounted_def getItem_def Let_def thrown_applyTheme
        write_outcome_def)

lemma thrown_toggleSnow: "thrown (App_toggleSnow a w) = write_outcome (storage_mode w)"
  by (simp add: App_toggleSnow_def Let_def thrown_applyShowSnow)

lemma thrown_app_mount: "thrown (App_onMounted a w) = write_outcome (storage_mode w)"
  by (cases "storage_mode w")
     (simp_all add: App_onMounted_def getItem_def Let_def thrown_applyShowSnow
        write_outcome_def)

lemma disabled_mount_changes_nothing:
  "storage_mode w = Disabled \<Longrightarrow>
     state_after (SimpleNavigation_onMounted c w) = (c, w) \<and>
     state_after (NavBar_onMounted n w) = (n, w) \<and>
     state_after (App_onMounted a w) = (a, w)"
  by (simp add: SimpleNavigation_onMounted_def NavBar_onMounted_def App_onMounted_def
      getItem_def)

lemma failed_toggle_state:
  "storage_mode w \<noteq> Working \<Longrightarrow>
     state_after (SimpleNavigation_toggleTheme c w) =
       (c\<lparr>currentTheme := (if currentTheme c = ''light'' then ''dark'' else ''light'')\<rparr>,
        w\<lparr>data_theme := Some (if currentTheme c = ''light'' then ''dark'' else ''light'')\<rparr>) \<and>
     state_after (App_toggleSnow a w) = (a\<lparr>showSnow := \<not> showSnow a\<rparr>, w)"
  by (cases "storage_mode w")
     (simp_all add: SimpleNavigation_toggleTheme_def App_toggleSnow_def App_applyShowSnow_def
        with_component_def setItem_def setAttribute_data_theme_def Let_def)

text \<open>
  A storage exception is not caught: on a store whose quota is exhausted the theme
  toggle of the navigation ends with the QuotaExceededError of \<^verbatim>\<open>setItem\<close>, after it
  has changed the in-memory theme and the root attribute.
\<close>

theorem storage_exception_propagates_counterexample:
  "SimpleNavigation_toggleTheme nav_setup full_page =
     Inl (QuotaExceededError,
          (nav_setup\<lparr>currentTheme := ''dark''\<rparr>, full_page\<lparr>data_theme := Some ''dark''\<rparr>))"
  by (simp add: SimpleNavigation_toggleTheme_def full_page_def nav_setup_def setItem_def
      setAttribute_data_theme_def page_at_simps Let_def)

text \<open>
  Claim C3, as the code has it: for every preference read or write (theme and
  animation), an exception of the underlying storage operation is not caught: the mount
  hooks, the toggles, \<^verbatim>\<open>applyTheme\<close> and \<^verbatim>\<open>applyShowSnow\<close> end with exactly the
  exception of the storage call they make (QuotaExceededError from a write on a full
  store, SecurityError from any access to a disabled store) and return normally when
  storage works. No default is substituted: a mount hook that fails on its read changes
  nothing, and a toggle that fails on its write has already changed the in-memory value
  (and, for the theme, the root attribute).
\<close>

theorem storage_exceptions_are_not_caught:
  "thrown (SimpleNavigation_onMounted c w) = read_outcome (storage_mode w) \<and>
   thrown (SimpleNavigation_toggleTheme c w) = write_outcome (storage_mode w) \<and>
   thrown (NavBar_onMounted n w) = write_outcome (storage_mode w) \<and>
   thrown (NavBar_toggleTheme n w) = write_outcome (storage_mode w) \<and>
   thrown (NavBar_applyTheme t w) = write_outcome (storage_mode w) \<and>
   thrown (App_onMounted a w) = write_outcome (storage_mode w) \<and>
   thrown (App_toggleSnow a w) = write_outcome (storage_mode w) \<and>
   thrown (App_applyShowSnow v w) = write_outcome (storage_mode w) \<and>
   (storage_mode w = Disabled \<longrightarrow>
      state_after (SimpleNavigation_onMounted c w) = (c, w) \<and>
      state_after (NavBar_onMounted n w) = (n, w) \<and>
      state_after (App_onMounted a w) = (a, w)) \<and>
   (storage_mode w \<noteq> Working \<longrightarrow>
      state_after (SimpleNavigation_toggleTheme c w) =
        (c\<lparr>currentTheme := (if currentTheme c = ''light'' then ''dark'' else ''light'')\<rparr>,
         w\<lparr>data_theme := Some (if currentTheme c = ''light'' then ''dark'' else ''light'')\<rparr>) \<and>
      state_after (App_toggleSnow a w) = (a\<lparr>showSnow := \<not> showSnow a\<rparr>, w))"
  using disabled_mount_changes_nothing[of w c n a] failed_toggle_state[of w c a]
  by (simp add: thrown_nav_mount thrown_nav_toggle thrown_navbar_mount thrown_navbar_toggle
      thrown_applyTheme thrown_app_mount thrown_toggleSnow thrown_applyShowSnow)

theorem storage_exceptions_are_not_caught_witness:
  "storage_mode full_page \<noteq> Working \<and>
   storage_mode (full_page\<lparr>storage_mode := Disabled\<rparr>) = Disabled \<and>
   thrown (SimpleNavigation_toggleTheme nav_setup full_page) = Some QuotaExceededError \<and>
   thrown (SimpleNavigation_onMounted nav_setup full_page) = None \<and>
   currentTheme (fst (state_after (SimpleNavigation_toggleTheme nav_setup full_page)))
     = ''dark'' \<and>
   thrown (App_applyShowSnow False (full_page\<lparr>storage_mode := Disabled\<rparr>))
     = Some SecurityError \<and>
   state_after (App_onMounted app_setup (full_page\<lparr>storage_mode := Disabled\<rparr>))
     = (app_setup, full_page\<lparr>storage_mode := Disabled\<rparr>) \<and>
   thrown (App_onMounted app_setup (page_at 0)) = None"
  using storage_exceptions_are_not_caught[of nav_setup full_page]
    storage_exceptions_are_not_caught[of _ "full_page\<lparr>storage_mode := Disabled\<rparr>" _ _
      app_setup False]
    storage_exceptions_are_not_caught[of _ "page_at 0" _ _ app_setup]
  by (simp add: full_page_def write_outcome_def read_outcome_def page_at_simps nav_setup_def)

subsection \<open>Defaults, idempotence and the parse of the snow text\<close>

text \<open>
  Claim C8: when the store (working) holds no value under the key, the load yields the
  hard-coded default and applies it: the navigation's mount hook returns with the
  in-memory theme \<^verbatim>\<open>light\<close> and the root attribute set to \<^verbatim>\<open>light\<close> (NavBar.vue
  also writes \<^verbatim>\<open>light\<close> to the store), and the app's load returns with the snow
  shown (\<^verbatim>\<open>showSnow\<close> true, written back as \<^verbatim>\<open>true\<close>).
\<close>

theorem defaults_when_nothing_stored:
  assumes "storage_mode w = Working"
  shows "(items w ''theme'' = None \<longrightarrow>
            (\<exists>s. SimpleNavigation_onMounted c w = Inr s) \<and>
            currentTheme (fst (state_after (SimpleNavigation_onMounted c w))) = ''light'' \<and>
            data_theme (snd (state_after (SimpleNavigation_onMounted c w))) = Some ''light'' \<and>
            NavBar_onMounted n w =
              Inr (n\<lparr>currentTheme_NavBar := ''light''\<rparr>,
                   w\<lparr>data_theme := Some ''light'',
                     items := (items w)(''theme'' \<mapsto> ''light'')\<rparr>)) \<and>
         (items w ''showSnow'' = None \<longrightarrow>
            App_onMounted a w =
              Inr (a\<lparr>showSnow := True\<rparr>,
                   w\<lparr>items := (items w)(''showSnow'' \<mapsto> ''true'')\<rparr>))"
  using assms
  by (simp add: SimpleNavigation_onMounted_def NavBar_onMounted_def App_onMounted_def
      NavBar_applyTheme_def App_applyShowSnow_def with_component_def getItem_def setItem_def
      setAttribute_data_theme_def addEventListener_scroll_def or_default_def toString_def
      Let_def)

theorem defaults_when_nothing_stored_witness:
  "storage_mode (page_at 0) = Working \<and> items (page_at 0) ''theme'' = None \<and>
   items (page_at 0) ''showSnow'' = None \<and>
   currentTheme (fst (state_after (SimpleNavigation_onMounted nav_setup (page_at 0))))
     = ''light'' \<and>
   data_theme (snd (state_after (SimpleNavigation_onMounted nav_setup (page_at 0))))
     = Some ''light'' \<and>
   showSnow (fst (state_after (App_onMounted (app_setup\<lparr>showSnow := False\<rparr>) (page_at 0))))"
proof -
  have w: "storage_mode (page_at 0) = Working" by (simp add: page_at_simps)
  from defaults_when_nothing_stored[OF w, of nav_setup navbar_setup
      "app_setup\<lparr>showSnow := False\<rparr>"]
  show ?thesis
    by (simp add: page_at_simps)
qed












lemma snow_load_value:
  "storage_mode w \<noteq> Disabled \<Longrightarrow>
   showSnow (fst (state_after (App_onMounted a w))) =
     (case items w ''showSnow'' of
        None \<Rightarrow> True
      | Some s \<Rightarrow> if s = [] then True else s = ''true'')"
  by (cases "storage_mode w")
     (simp_all add: App_onMounted_def App_applyShowSnow_def with_component_def getItem_def
      setItem_def Let_def)

text \<open>
  Claim C10: on load of the snow preference (the store being readable), for every
  non-empty string stored under the key the in-memory value becomes true exactly when
  the string is the text \<^verbatim>\<open>true\<close>; any other non-empty text disables the animation;
  an absent or empty stored value yields the default true. A stored value that does
  not parse does not fall back to the default.
\<close>

theorem snow_load_true_only_for_text_true:
  assumes "storage_mode w \<noteq> Disabled"
  shows "(\<forall>s. items w ''showSnow'' = Some s \<and> s \<noteq> [] \<longrightarrow>
            showSnow (fst (state_after (App_onMounted a w))) = (s = ''true'')) \<and>
         (items w ''showSnow'' = None \<or> items w ''showSnow'' = Some [] \<longrightarrow>
            showSnow (fst (state_after (App_onMounted a w))))"
  using snow_load_value[OF assms, of a] by auto

theorem snow_load_true_only_for_text_true_witness:
  "storage_mode (page_at 0) \<noteq> Disabled \<and>
   \<not> showSnow (fst (state_after (App_onMounted app_setup
        ((page_at 0)\<lparr>items := [''showSnow'' \<mapsto> ''TRUE'']\<rparr>)))) \<and>
   \<not> showSnow (fst (state_after (App_onMounted app_setup
        ((page_at 0)\<lparr>items := [''showSnow'' \<mapsto> ''1'']\<rparr>)))) \<and>
   showSnow (fst (state_after (App_onMounted (app_setup\<lparr>showSnow := False\<rparr>)
        ((page_at 0)\<lparr>items := [''showSnow'' \<mapsto> ''true'']\<rparr>)))) \<and>
   showSnow (fst (state_after (App_onMounted (app_setup\<lparr>showSnow := False\<rparr>)
        ((page_at 0)\<lparr>items := [''showSnow'' \<mapsto> []]\<rparr>)))) \<and>
   showSnow (fst (state_after (App_onMounted (app_setup\<lparr>showSnow := False\<rparr>) (page_at 0))))"
  using
    snow_load_true_only_for_text_true
      [of "(page_at 0)\<lparr>items := [''showSnow'' \<mapsto> ''TRUE'']\<rparr>" app_setup]
    snow_load_true_only_for_text_true
      [of "(page_at 0)\<lparr>items := [''showSnow'' \<mapsto> ''1'']\<rparr>" app_setup]
    snow_load_true_only_for_text_true
      [of "(page_at 0)\<lparr>items := [''showSnow'' \<mapsto> ''true'']\<rparr>"
          "app_setup\<lparr>showSnow := False\<rparr>"]
    snow_load_true_only_for_text_true
      [of "(page_at 0)\<lparr>items := [''showSnow'' \<mapsto> []]\<rparr>" "app_setup\<lparr>showSnow := False\<rparr>"]
    snow_load_true_only_for_text_true [of "page_at 0" "app_setup\<lparr>showSnow := False\<rparr>"]
  by (simp add: page_at_simps)

section \<open>Reveal on intersection\<close>

lemma old_browser_simps: "has_IntersectionObserver old_browser = False"
  by (simp add: old_browser_def)

lemma mounted_simps:
  "about_mounted = \<lparr>isVisible = False, elementRef = Some ''about'', observed = [''about'']\<rparr>"
  "contact_mounted =
     \<lparr>isVisible = False, elementRef = Some ''contact'', observed = [''contact'']\<rparr>"
  "projects_mounted =
     \<lparr>isVisible = False, elementRef = Some ''projects'', observed = [''projects'']\<rparr>"
  by (simp_all add: about_mounted_def contact_mounted_def projects_mounted_def
      AboutSection_onMounted_def ContactSection_onMounted_def ProjectsSection_onMounted_def
      reveal_setup_def observe_def page_at_simps)

lemma nav_mounted_simp:
  "nav_mounted =
     (nav_setup, (page_at 0)\<lparr>data_theme := Some ''light'', scroll_listeners := [HandleScroll]\<rparr>)"
  by (simp add: nav_mounted_def SimpleNavigation_onMounted_def getItem_def or_default_def
      setAttribute_data_theme_def addEventListener_scroll_def updateActiveSection_def
      sections_def getElementById_def rect_top_def nav_setup_def page_at_simps
      three_sections_simps Let_def)

text \<open>The flag of a section only ever goes from false to true.\<close>

lemma AboutSection_callback_visible:
  "isVisible (AboutSection_callback es r) = (isVisible r \<or> (\<exists>e \<in> set es. isIntersecting e))"
  by (induction es arbitrary: r) auto

lemma ProjectsSection_callback_visible:
  "isVisible (ProjectsSection_callback es r) = (isVisible r \<or> (\<exists>e \<in> set es. isIntersecting e))"
  by (induction es arbitrary: r) auto

text \<open>
  The navigation's unmount hook removes its scroll listener, and scrolling no longer
  changes its state.
\<close>

lemma scroll_after_unmount:
  "fst (dispatch_scroll y c' (snd (SimpleNavigation_onUnmounted c w))) = c'"
  by (simp add: dispatch_scroll_def SimpleNavigation_onUnmounted_def
      removeEventListener_scroll_def Let_def)

text \<open>
  Claim C4 (revealed at once when the observer capability is missing, and no exception
  out of the mount hook) against the code: in a browser without
  \<^verbatim>\<open>IntersectionObserver\<close>, the mount hooks of AboutSection.vue, ContactSection.vue and
  ProjectsSection.vue end with the ReferenceError of the unguarded constructor call, the
  section stays pending, and with no observer no later observation reveals it.
\<close>

theorem section_mount_without_observer_support:
  "AboutSection_onMounted (reveal_setup (Some ''about'')) old_browser =
     Inl (ReferenceError, reveal_setup (Some ''about'')) \<and>
   ContactSection_onMounted (reveal_setup (Some ''contact'')) old_browser =
     Inl (ReferenceError, reveal_setup (Some ''contact'')) \<and>
   ProjectsSection_onMounted (reveal_setup (Some ''projects'')) old_browser =
     Inl (ReferenceError, reveal_setup (Some ''projects'')) \<and>
   \<not> isVisible (reveal_setup (Some ''about'')) \<and>
   deliver AboutSection_callback [qualifying ''about''] (reveal_setup (Some ''about'')) =
     reveal_setup (Some ''about'')"
  by (simp add: AboutSection_onMounted_def ContactSection_onMounted_def
      ProjectsSection_onMounted_def reveal_setup_def old_browser_simps deliver_def)

text \<open>
  Claim C5 (the observer is unsubscribed within the handling of the first qualifying
  observation) against the code: after the first qualifying observation the flag of
  AboutSection.vue is set, and its observer still observes the element, so a later
  observation reaches the callback again; the same holds for ContactSection.vue.
  ProjectsSection.vue stops observing in the callback.
\<close>

theorem section_keeps_observing_after_reveal:
  "isVisible (deliver AboutSection_callback [qualifying ''about''] about_mounted) \<and>
   observed (deliver AboutSection_callback [qualifying ''about''] about_mounted)
     = [''about''] \<and>
   observed (deliver ContactSection_callback [qualifying ''contact''] contact_mounted)
     = [''contact''] \<and>
   observed (deliver ProjectsSection_callback [qualifying ''projects''] projects_mounted)
     = []"
  by (simp add: mounted_simps deliver_def qualifying_def unobserve_def)

text \<open>
  Claim C6 (every listener or observer attached at mount is detached at teardown, after
  which events change nothing) against the code: AboutSection.vue has no unmount hook
  and the one of ProjectsSection.vue does not touch the observer, so after the unmount
  the observer still observes the element and a qualifying observation flips the flag
  of the unmounted component. The navigation does pair its attach with a detach: its
  mount hook registers the scroll listener, a scroll to 950 then moves the active
  section, and after its unmount hook the listener is gone and the same scroll changes
  nothing.
\<close>

theorem section_observer_survives_unmount:
  "\<not> isVisible (unmount_without_hook about_mounted) \<and>
   observed (unmount_without_hook about_mounted) = [''about''] \<and>
   isVisible (deliver AboutSection_callback [qualifying ''about'']
                (unmount_without_hook about_mounted)) \<and>
   \<not> isVisible (ProjectsSection_onUnmounted projects_mounted) \<and>
   isVisible (deliver ProjectsSection_callback [qualifying ''projects'']
                (ProjectsSection_onUnmounted projects_mounted)) \<and>
   scroll_listeners (snd nav_mounted) = [HandleScroll] \<and>
   activeSection (fst nav_mounted) = ''hero'' \<and>
   activeSection (fst (dispatch_scroll 950 (fst nav_mounted) (snd nav_mounted))) = ''about'' \<and>
   scroll_listeners
     (snd (SimpleNavigation_onUnmounted (fst nav_mounted) (snd nav_mounted))) = [] \<and>
   fst (dispatch_scroll 950 (fst nav_mounted)
          (snd (SimpleNavigation_onUnmounted (fst nav_mounted) (snd nav_mounted))))
     = fst nav_mounted"
  by (simp add: mounted_simps nav_mounted_simp deliver_def qualifying_def
      unmount_without_hook_def ProjectsSection_onUnmounted_def unobserve_def
      dispatch_scroll_def handleScroll_def updateActiveSection_def sections_def
      getElementById_def rect_top_def nav_setup_def page_at_simps three_sections_simps
      SimpleNavigation_onUnmounted_def removeEventListener_scroll_def Let_def)

end
